theory Spec2Isabelle
  imports Main "HOL-Library.Word" "HOL-Library.Signed_Division"
begin

unbundle bit_operations_syntax

section \<open>C values\<close>

text \<open>
  The launcher core is C (\<^verbatim>\<open>src/pkg/gui/xlunch_native.c\<close>). A C \<^verbatim>\<open>int\<close> is modelled
  as a HOL \<open>int\<close>: the embedding computes what the program computes on every execution
  in which no \<^verbatim>\<open>int\<close> operation overflows (signed overflow has no defined result in C).
  Division is C's: it truncates towards zero, and dividing by zero has no result; the
  model returns \<open>None\<close> there. A pointer that the code tests against \<^verbatim>\<open>NULL\<close> is a
  \<open>'a ptr\<close>: \<open>NULL\<close>, or \<open>Ptr v\<close> with the value it points to.
\<close>

datatype 'a ptr = NULL | Ptr 'a

definition c_div :: "int \<Rightarrow> int \<Rightarrow> int option" where
  "c_div a b = (if b = 0 then None else Some (a sdiv b))"

definition c_mod :: "int \<Rightarrow> int \<Rightarrow> int option" where
  "c_mod a b = (if b = 0 then None else Some (a smod b))"

definition c_bool :: "bool \<Rightarrow> int" where
  "c_bool b = (if b then 1 else 0)"

text \<open>The values a 32-bit \<^verbatim>\<open>int\<close> holds.\<close>

definition c_int :: "int \<Rightarrow> bool" where
  "c_int x \<longleftrightarrow> - (2 ^ 31) \<le> x \<and> x < 2 ^ 31"

section \<open>The window state\<close>

text \<open>
  \<^verbatim>\<open>XLunchNative\<close> (xlunch_native.h). \<open>window\<close> is the X id of the visible window;
  \<open>xft_draw\<close> is the drawable that the Xft drawing object was created on
  (\<^verbatim>\<open>XftDrawCreate\<close>), or \<open>NULL\<close>; an \<^verbatim>\<open>XftColor\<close> is the colour name it was allocated
  from; \<open>background_image\<close> and \<open>render_buffer\<close> are Imlib image handles, or \<open>NULL\<close>.
  The display connection, screen, root window, GC, font, colormap and visual are one per
  process and are part of the \<open>display\<close> record of section \<open>Drawing\<close> where the
  code modelled here depends on them.
\<close>

record XLunchNative =
  window :: nat
  xft_draw :: "nat ptr"
  text_color :: string
  highlight_color :: string
  background_color :: string
  width :: int
  height :: int
  icon_size :: int
  cols :: int
  rows :: int
  cell_width :: int
  cell_height :: int
  padding :: int
  num_entries :: int
  background_image :: "nat ptr"
  settings_button_hovered :: int
  logo_button_hovered :: int
  settings_x :: int
  settings_y :: int
  settings_w :: int
  settings_h :: int
  logo_x :: int
  logo_y :: int
  logo_w :: int
  logo_h :: int
  scrolled_past :: int
  noscroll :: int
  entries_count :: int
  scrollbar_color :: nat
  scrollindicator_color :: nat
  scroll_debounce_counter :: int
  render_buffer :: "nat ptr"
  dirty :: int

section \<open>Scroll state machine\<close>

text \<open>
  \<^verbatim>\<open>xlunch_native_set_scroll_level\<close> (lines 875-897). The result is the state after the
  call and the returned \<^verbatim>\<open>int\<close>; \<open>None\<close> is the division by \<^verbatim>\<open>xl->cols == 0\<close>.
\<close>

definition xlunch_native_set_scroll_level ::
  "XLunchNative ptr \<Rightarrow> int \<Rightarrow> (XLunchNative ptr \<times> int) option" where
  "xlunch_native_set_scroll_level p new_scroll =
     (case p of
        NULL \<Rightarrow> Some (NULL, 0)
      | Ptr xl \<Rightarrow>
          if noscroll xl \<noteq> 0 then Some (Ptr xl, 0)
          else
            let old_scroll = scrolled_past xl in
            if new_scroll \<noteq> scrolled_past xl then
              (case c_div (entries_count xl - 1) (cols xl) of
                 None \<Rightarrow> None
               | Some q \<Rightarrow>
                   let xl1 = xl\<lparr>scrolled_past := new_scroll\<rparr>;
                       max_scroll = q - rows xl1 + 1;
                       xl2 = (if scrolled_past xl1 > max_scroll
                              then xl1\<lparr>scrolled_past := max_scroll\<rparr> else xl1);
                       xl3 = (if scrolled_past xl2 < 0
                              then xl2\<lparr>scrolled_past := 0\<rparr> else xl2)
                   in Some (Ptr xl3, if scrolled_past xl3 \<noteq> old_scroll then 1 else 0))
            else Some (Ptr xl, 0))"

section \<open>Hit test and hover\<close>

text \<open>\<^verbatim>\<open>xlunch_native_check_button_hover\<close> (lines 748-764): 1 settings, 2 logo, 0 none.\<close>

definition xlunch_native_check_button_hover :: "XLunchNative ptr \<Rightarrow> int \<Rightarrow> int \<Rightarrow> int" where
  "xlunch_native_check_button_hover p mouse_x mouse_y =
     (case p of
        NULL \<Rightarrow> 0
      | Ptr xl \<Rightarrow>
          if mouse_x \<ge> settings_x xl \<and> mouse_x \<le> settings_x xl + settings_w xl \<and>
             mouse_y \<ge> settings_y xl \<and> mouse_y \<le> settings_y xl + settings_h xl
          then 1
          else if mouse_x \<ge> logo_x xl \<and> mouse_x \<le> logo_x xl + logo_w xl \<and>
                  mouse_y \<ge> logo_y xl \<and> mouse_y \<le> logo_y xl + logo_h xl
          then 2
          else 0)"

text \<open>\<^verbatim>\<open>xlunch_native_handle_hover\<close> (lines 767-789).\<close>

definition xlunch_native_handle_hover :: "XLunchNative ptr \<Rightarrow> int \<Rightarrow> int \<Rightarrow> XLunchNative ptr" where
  "xlunch_native_handle_hover p mouse_x mouse_y =
     (case p of
        NULL \<Rightarrow> NULL
      | Ptr xl \<Rightarrow>
          let xl1 = xl\<lparr>settings_button_hovered := 0, logo_button_hovered := 0\<rparr>;
              button = xlunch_native_check_button_hover (Ptr xl1) mouse_x mouse_y
          in if button = 1 then Ptr (xl1\<lparr>settings_button_hovered := 1\<rparr>)
             else if button = 2 then Ptr (xl1\<lparr>logo_button_hovered := 1\<rparr>)
             else Ptr xl1)"

section \<open>Grid layout\<close>

text \<open>
  \<^verbatim>\<open>xlunch_native_calculate_entry_position\<close> (lines 935-948). \<open>x\<close> and \<open>y\<close> are the
  out-parameters; the result is what they point to after the call. \<open>None\<close> is the
  division by \<^verbatim>\<open>xl->cols == 0\<close>.
\<close>

definition xlunch_native_calculate_entry_position ::
  "XLunchNative ptr \<Rightarrow> int \<Rightarrow> int ptr \<Rightarrow> int ptr \<Rightarrow> (int ptr \<times> int ptr) option" where
  "xlunch_native_calculate_entry_position p entry_index x y =
     (case p of
        NULL \<Rightarrow> Some (x, y)
      | Ptr xl \<Rightarrow>
          if x = NULL \<or> y = NULL then Some (x, y)
          else
            (case c_div entry_index (cols xl) of
               None \<Rightarrow> None
             | Some row \<Rightarrow>
                 (case c_mod entry_index (cols xl) of
                    None \<Rightarrow> None
                  | Some col \<Rightarrow>
                      let display_row = row - scrolled_past xl
                      in Some (Ptr (col * cell_width xl + (cell_width xl - icon_size xl) sdiv 2),
                               Ptr (140 + display_row * cell_height xl)))))"

section \<open>Event dispatcher\<close>

text \<open>
  The X events the window selects (line 267) and the dispatcher tells apart: a key press
  with its keycode, a button press with its button and window coordinates, pointer
  motion with its coordinates; \<open>OtherEvent\<close> is any event of another type (a button
  release, for one). The connection's queue of pending events is an \<open>XEvent list\<close>,
  oldest first: \<^verbatim>\<open>XPending\<close> is its length, \<^verbatim>\<open>XNextEvent\<close> removes its head.
\<close>

datatype XEvent =
    KeyPress nat
  | ButtonPress nat int int
  | Expose
  | ClientMessage
  | MotionNotify int int
  | EnterNotify
  | LeaveNotify
  | OtherEvent

text \<open>
  The statement pair \<^verbatim>\<open>int scroll_changed = xlunch_native_set_scroll_level(xl, n);
  return scroll_changed ? 2 : 1;\<close> of the key and wheel branches. A result is the
  returned code, the state and the value of \<^verbatim>\<open>*selected_entry\<close>.
\<close>

definition scroll_and_return :: "XLunchNative \<Rightarrow> int \<Rightarrow> (int \<times> XLunchNative ptr \<times> int) option" where
  "scroll_and_return xl n =
     (case xlunch_native_set_scroll_level (Ptr xl) n of
        None \<Rightarrow> None
      | Some (p', scroll_changed) \<Rightarrow> Some (if scroll_changed \<noteq> 0 then 2 else 1, p', -1))"

text \<open>The \<^verbatim>\<open>Button1\<close> branch (lines 666-709), \<^verbatim>\<open>*selected_entry\<close> being -1 on entry.\<close>

definition left_click :: "XLunchNative \<Rightarrow> int \<Rightarrow> int \<Rightarrow> (int \<times> XLunchNative ptr \<times> int) option" where
  "left_click xl x y =
     (if y < 140 then
        (let button_clicked = xlunch_native_check_button_hover (Ptr xl) x y
         in if button_clicked = 1 then Some (-2, Ptr xl, -1)
            else if button_clicked = 2 then Some (-3, Ptr xl, -1)
            else Some (1, Ptr xl, -1))
      else
        let grid_y = y - 140 in
        if x \<ge> 0 \<and> grid_y \<ge> 0 then
          (case c_div x (cell_width xl) of
             None \<Rightarrow> None
           | Some col \<Rightarrow>
               (case c_div grid_y (cell_height xl) of
                  None \<Rightarrow> None
                | Some display_row \<Rightarrow>
                    let actual_row = display_row + scrolled_past xl;
                        index = actual_row * cols xl + col
                    in if col \<ge> 0 \<and> col < cols xl \<and> display_row \<ge> 0 \<and>
                          index \<ge> 0 \<and> index < num_entries xl
                       then
                         (let startY = 140;
                              cellHeight = cell_height xl
                          in case c_div (height xl - startY) cellHeight of
                               None \<Rightarrow> None
                             | Some maxVisibleRows \<Rightarrow>
                                 if display_row < maxVisibleRows then Some (0, Ptr xl, index)
                                 else Some (1, Ptr xl, -1))
                       else Some (1, Ptr xl, -1)))
        else Some (1, Ptr xl, -1))"

text \<open>The \<^verbatim>\<open>switch (event.type)\<close> (lines 633-742); falling out of it returns 1.\<close>

fun handle_event :: "XLunchNative \<Rightarrow> XEvent \<Rightarrow> (int \<times> XLunchNative ptr \<times> int) option" where
  "handle_event xl (KeyPress keycode) =
     (if keycode = 9 then Some (0, Ptr xl, -1)
      else if keycode = 112 then scroll_and_return xl (scrolled_past xl - rows xl)
      else if keycode = 117 then scroll_and_return xl (scrolled_past xl + rows xl)
      else if keycode = 110 then scroll_and_return xl 0
      else if keycode = 115 then scroll_and_return xl (entries_count xl)
      else if keycode = 111 then scroll_and_return xl (scrolled_past xl - 1)
      else if keycode = 116 then scroll_and_return xl (scrolled_past xl + 1)
      else Some (1, Ptr xl, -1))"
| "handle_event xl (ButtonPress button x y) =
     (if button = 1 then left_click xl x y
      else if button = 4 then scroll_and_return xl (scrolled_past xl - 1)
      else if button = 5 then scroll_and_return xl (scrolled_past xl + 1)
      else Some (1, Ptr xl, -1))"
| "handle_event xl Expose = Some (2, Ptr xl, -1)"
| "handle_event xl ClientMessage = Some (0, Ptr xl, -1)"
| "handle_event xl (MotionNotify x y) = Some (1, xlunch_native_handle_hover (Ptr xl) x y, -1)"
| "handle_event xl EnterNotify =
     Some (1, Ptr (xl\<lparr>settings_button_hovered := 0, logo_button_hovered := 0\<rparr>), -1)"
| "handle_event xl LeaveNotify =
     Some (1, Ptr (xl\<lparr>settings_button_hovered := 0, logo_button_hovered := 0\<rparr>), -1)"
| "handle_event xl OtherEvent = Some (1, Ptr xl, -1)"

text \<open>
  \<^verbatim>\<open>xlunch_native_handle_events\<close> (lines 623-745). The result is the returned code, the
  state, \<^verbatim>\<open>selected_entry\<close> with the value it points to, and the events left pending.
\<close>

definition xlunch_native_handle_events ::
  "XLunchNative ptr \<Rightarrow> int ptr \<Rightarrow> XEvent list \<Rightarrow>
     (int \<times> XLunchNative ptr \<times> int ptr \<times> XEvent list) option" where
  "xlunch_native_handle_events p selected_entry pending =
     (case p of
        NULL \<Rightarrow> Some (-1, p, selected_entry, pending)
      | Ptr xl \<Rightarrow>
          (case selected_entry of
             NULL \<Rightarrow> Some (-1, p, selected_entry, pending)
           | Ptr _ \<Rightarrow>
               (case pending of
                  [] \<Rightarrow> Some (1, Ptr xl, Ptr (-1), [])
                | event # rest \<Rightarrow>
                    (case handle_event xl event of
                       None \<Rightarrow> None
                     | Some (code, p', sel) \<Rightarrow> Some (code, p', Ptr sel, rest)))))"

section \<open>Drawing\<close>

text \<open>
  What the X server and Imlib2 hold for the process. A drawable (the window) is the list
  of drawing requests sent to it, oldest first; an Imlib image is its size and the list
  of operations applied to it. So a call draws on a target exactly when it extends that
  target's list. An X or Xft request records the colour it draws with (the GC's
  foreground, or the Xft colour). Imlib2 keeps a context: the current image, the current
  drawable, the blend flag and the colour; \<^verbatim>\<open>imlib_blend_image_onto_image\<close>,
  \<^verbatim>\<open>imlib_image_get_width\<close>, \<^verbatim>\<open>imlib_free_image\<close> and the fill, data and render calls
  all work on the context's current image, and rendering goes to the context's current
  drawable. Using an image that is not live has no defined result (\<open>None\<close>).
  \<open>image_files\<close> gives the size of the image \<^verbatim>\<open>imlib_load_image\<close> finds at a path, when
  it finds one.
\<close>

type_synonym DATA32 = "32 word"

datatype imlib_op =
    Loaded_from string
  | Set_has_alpha int
  | Put_back_data "DATA32 list"
  | Fill_rectangle "int \<times> int \<times> int \<times> int" int int int int
  | Blend_onto nat int int int int int int int int int

datatype x_request =
    XFillRectangle nat int int int int
  | XDrawRectangle nat int int int int
  | XFillArc nat int int int int int int
  | XDrawLine nat int int int int
  | XDrawPoint nat int int
  | XftDrawStringUtf8 string int int string
  | Render_image_at_size nat int int int int

record Imlib_Image =
  image_width :: int
  image_height :: int
  image_ops :: "imlib_op list"

record display =
  drawables :: "nat \<Rightarrow> x_request list"
  gc_foreground :: nat
  images :: "nat \<Rightarrow> Imlib_Image option"
  next_image :: nat
  context_image :: "nat ptr"
  context_drawable :: "nat ptr"
  context_blend :: int
  context_color :: "int \<times> int \<times> int \<times> int"
  image_files :: "string \<Rightarrow> (int \<times> int) option"

definition send_request :: "nat \<Rightarrow> x_request \<Rightarrow> display \<Rightarrow> display" where
  "send_request d r g = g\<lparr>drawables := (drawables g)(d := drawables g d @ [r])\<rparr>"

definition imlib_create_image :: "bool \<Rightarrow> int \<Rightarrow> int \<Rightarrow> display \<Rightarrow> nat ptr \<times> display" where
  "imlib_create_image succeeds w h g =
     (if succeeds
      then (Ptr (next_image g),
            g\<lparr>images := (images g)(next_image g \<mapsto>
                   \<lparr>image_width = w, image_height = h, image_ops = []\<rparr>),
              next_image := next_image g + 1\<rparr>)
      else (NULL, g))"

definition imlib_load_image :: "string \<Rightarrow> display \<Rightarrow> nat ptr \<times> display" where
  "imlib_load_image path g =
     (case image_files g path of
        None \<Rightarrow> (NULL, g)
      | Some (w, h) \<Rightarrow>
          (Ptr (next_image g),
           g\<lparr>images := (images g)(next_image g \<mapsto>
                  \<lparr>image_width = w, image_height = h, image_ops = [Loaded_from path]\<rparr>),
             next_image := next_image g + 1\<rparr>))"

definition imlib_context_set_image :: "nat ptr \<Rightarrow> display \<Rightarrow> display" where
  "imlib_context_set_image im g = g\<lparr>context_image := im\<rparr>"

definition current_image :: "display \<Rightarrow> (nat \<times> Imlib_Image) option" where
  "current_image g =
     (case context_image g of
        NULL \<Rightarrow> None
      | Ptr i \<Rightarrow> (case images g i of None \<Rightarrow> None | Some im \<Rightarrow> Some (i, im)))"

definition apply_to_current_image :: "imlib_op \<Rightarrow> display \<Rightarrow> display option" where
  "apply_to_current_image op g =
     (case current_image g of
        None \<Rightarrow> None
      | Some (i, im) \<Rightarrow>
          Some (g\<lparr>images := (images g)(i \<mapsto> im\<lparr>image_ops := image_ops im @ [op]\<rparr>)\<rparr>))"

definition imlib_render_image_on_drawable_at_size ::
  "int \<Rightarrow> int \<Rightarrow> int \<Rightarrow> int \<Rightarrow> display \<Rightarrow> display option" where
  "imlib_render_image_on_drawable_at_size x y w h g =
     (case current_image g of
        None \<Rightarrow> None
      | Some (i, im) \<Rightarrow>
          (case context_drawable g of
             NULL \<Rightarrow> None
           | Ptr d \<Rightarrow> Some (send_request d (Render_image_at_size i x y w h) g)))"

definition imlib_free_image :: "display \<Rightarrow> display option" where
  "imlib_free_image g =
     (case current_image g of
        None \<Rightarrow> None
      | Some (i, im) \<Rightarrow> Some (g\<lparr>images := (images g)(i := None), context_image := NULL\<rparr>))"

subsection \<open>Text and rectangles\<close>



subsection \<open>Rounded rectangle\<close>

text \<open>
  \<^verbatim>\<open>xlunch_native_draw_rounded_rect\<close> (lines 847-872). The test
  \<^verbatim>\<open>sqrt(i*i + j*j) <= radius\<close> is on a \<^verbatim>\<open>double\<close>; for \<open>0 \<le> i, j < radius\<close>, with
  \<^verbatim>\<open>i*i + j*j\<close> an \<^verbatim>\<open>int\<close>, the correctly rounded square root is at most \<open>radius\<close> exactly
  when \<open>i*i + j*j \<le> radius*radius\<close>, which is how the model writes it.
\<close>

function rounded_rect_j ::
  "XLunchNative \<Rightarrow> int \<Rightarrow> int \<Rightarrow> int \<Rightarrow> int \<Rightarrow> int \<Rightarrow> int \<Rightarrow> int \<Rightarrow> display \<Rightarrow> display" where
  "rounded_rect_j xl x y w h radius i j g =
     (if j < radius then
        rounded_rect_j xl x y w h radius i (j + 1)
          (if i * i + j * j \<le> radius * radius then
             send_request (window xl) (XDrawPoint (gc_foreground g) (x + w - radius + i - 1) (y + h - radius + j - 1))
               (send_request (window xl) (XDrawPoint (gc_foreground g) (x + radius - i) (y + h - radius + j - 1))
                  (send_request (window xl) (XDrawPoint (gc_foreground g) (x + w - radius + i - 1) (y + radius - j))
                     (send_request (window xl) (XDrawPoint (gc_foreground g) (x + radius - i) (y + radius - j)) g)))
           else g)
      else g)"
  by pat_completeness auto
termination
  by (relation "measure (\<lambda>(xl, x, y, w, h, radius, i, j, g). nat (radius - j))") auto

function rounded_rect_i ::
  "XLunchNative \<Rightarrow> int \<Rightarrow> int \<Rightarrow> int \<Rightarrow> int \<Rightarrow> int \<Rightarrow> int \<Rightarrow> display \<Rightarrow> display" where
  "rounded_rect_i xl x y w h radius i g =
     (if i < radius then
        rounded_rect_i xl x y w h radius (i + 1) (rounded_rect_j xl x y w h radius i 0 g)
      else g)"
  by pat_completeness auto
termination
  by (relation "measure (\<lambda>(xl, x, y, w, h, radius, i, g). nat (radius - i))") auto


subsection \<open>Icons\<close>

text \<open>
  The statement that puts the loaded icon at a rectangle (lines 523-530, and again at
  lines 533-540 with the unpadded rectangle). With a render buffer the code makes the
  icon the current image, blends the icon onto the current image, and then makes the
  render buffer the current image.
\<close>

definition place_icon ::
  "XLunchNative \<Rightarrow> nat \<Rightarrow> int \<Rightarrow> int \<Rightarrow> int \<Rightarrow> int \<Rightarrow> display \<Rightarrow> display option" where
  "place_icon xl icon dx dy dw dh g =
     (if render_buffer xl \<noteq> NULL then
        (let g1 = imlib_context_set_image (Ptr icon) g
         in case current_image g1 of
              None \<Rightarrow> None
            | Some (i, im) \<Rightarrow>
                (case apply_to_current_image
                        (Blend_onto icon 1 0 0 (image_width im) (image_height im) dx dy dw dh) g1 of
                   None \<Rightarrow> None
                 | Some g2 \<Rightarrow> Some (imlib_context_set_image (render_buffer xl) g2)))
      else imlib_render_image_on_drawable_at_size dx dy dw dh g)"

text \<open>
  The placeholder's colour (lines 546-574). \<^verbatim>\<open>unsigned long\<close> is 64 bits and a
  \<^verbatim>\<open>char\<close> of the path is read as its byte value (the LP64 ARM target of the program).
\<close>

fun path_hash :: "64 word \<Rightarrow> string \<Rightarrow> 64 word" where
  "path_hash hash [] = hash"
| "path_hash hash (c # cs) = path_hash ((push_bit 5 hash + hash) + of_nat (of_char c)) cs"

fun strstr :: "string \<Rightarrow> string \<Rightarrow> bool" where
  "strstr [] needle = (needle = [])"
| "strstr (c # cs) needle = (take (length needle) (c # cs) = needle \<or> strstr cs needle)"

definition placeholder_color :: "string \<Rightarrow> nat" where
  "placeholder_color icon_path =
     (let hash = path_hash 5381 icon_path
      in if strstr icon_path ''Games'' \<or> strstr icon_path ''games'' then 0x9b59b6
         else if strstr icon_path ''Internet'' \<or> strstr icon_path ''internet'' then 0x3498db
         else if strstr icon_path ''Multimedia'' \<or> strstr icon_path ''multimedia'' then 0xe74c3c
         else if strstr icon_path ''Office'' \<or> strstr icon_path ''office'' then 0x2ecc71
         else if strstr icon_path ''Programming'' \<or> strstr icon_path ''programming'' then 0xf39c12
         else if strstr icon_path ''Engineering'' \<or> strstr icon_path ''engineering'' then 0x34495e
         else if strstr icon_path ''Appearance'' \<or> strstr icon_path ''appearance'' then 0xe67e22
         else if strstr icon_path ''Tools'' \<or> strstr icon_path ''tools'' then 0x95a5a6
         else 0x3498db + (unat hash mod 5) * 0x151515)"

text \<open>The placeholder tile (lines 576-617), drawn with X requests on \<^verbatim>\<open>xl->window\<close>.\<close>

definition draw_placeholder ::
  "XLunchNative \<Rightarrow> int \<Rightarrow> int \<Rightarrow> int \<Rightarrow> int \<Rightarrow> string \<Rightarrow> display \<Rightarrow> display" where
  "draw_placeholder xl x y w h icon_path g =
     (let color = placeholder_color icon_path;
          icon_padding = 8;
          draw_x = x + icon_padding;
          draw_y = y + icon_padding;
          draw_w = w - (icon_padding * 2);
          draw_h = h - (icon_padding * 2);
          corner_radius = 6;
          win = window xl;
          g1 = g\<lparr>gc_foreground := color\<rparr>;
          g2 = send_request win (XFillRectangle color (draw_x + corner_radius) draw_y
                                   (draw_w - 2 * corner_radius) draw_h) g1;
          g3 = send_request win (XFillRectangle color draw_x (draw_y + corner_radius)
                                   draw_w (draw_h - 2 * corner_radius)) g2;
          g4 = send_request win (XFillArc color draw_x draw_y
                                   (2 * corner_radius) (2 * corner_radius) (90 * 64) (90 * 64)) g3;
          g5 = send_request win (XFillArc color (draw_x + draw_w - 2 * corner_radius) draw_y
                                   (2 * corner_radius) (2 * corner_radius) (0 * 64) (90 * 64)) g4;
          g6 = send_request win (XFillArc color draw_x (draw_y + draw_h - 2 * corner_radius)
                                   (2 * corner_radius) (2 * corner_radius) (180 * 64) (90 * 64)) g5;
          g7 = send_request win (XFillArc color (draw_x + draw_w - 2 * corner_radius)
                                   (draw_y + draw_h - 2 * corner_radius)
                                   (2 * corner_radius) (2 * corner_radius) (270 * 64) (90 * 64)) g6;
          g8 = g7\<lparr>gc_foreground := color + 0x333333\<rparr>;
          g9 = send_request win (XDrawLine (color + 0x333333) (draw_x + corner_radius) (draw_y + 1)
                                   (draw_x + draw_w - corner_radius) (draw_y + 1)) g8;
          g10 = g9\<lparr>gc_foreground := 0x000000\<rparr>
      in send_request win (XDrawRectangle 0x000000 (draw_x + 2) (draw_y + 2)
                             (draw_w - 1) (draw_h - 1)) g10)"

text \<open>\<^verbatim>\<open>xlunch_native_draw_icon\<close> (lines 497-619).\<close>

definition xlunch_native_draw_icon ::
  "XLunchNative ptr \<Rightarrow> int \<Rightarrow> int \<Rightarrow> int \<Rightarrow> int \<Rightarrow> string ptr \<Rightarrow> display \<Rightarrow> display option" where
  "xlunch_native_draw_icon p x y w h icon_path_ptr g =
     (case p of
        NULL \<Rightarrow> Some g
      | Ptr xl \<Rightarrow>
          (case icon_path_ptr of
             NULL \<Rightarrow> Some g
           | Ptr icon_path \<Rightarrow>
               (case imlib_load_image icon_path g of
                  (NULL, g0) \<Rightarrow> Some (draw_placeholder xl x y w h icon_path g0)
                | (Ptr icon, g0) \<Rightarrow>
                    let g1 = imlib_context_set_image (Ptr icon) g0;
                        g2 = (if render_buffer xl \<noteq> NULL
                              then (imlib_context_set_image (render_buffer xl) g1)\<lparr>context_blend := 1\<rparr>
                              else g1\<lparr>context_drawable := Ptr (window xl), context_blend := 1\<rparr>);
                        icon_padding = 8;
                        actual_x = x + icon_padding;
                        actual_y = y + icon_padding;
                        actual_w = w - (icon_padding * 2);
                        actual_h = h - (icon_padding * 2)
                    in case (if actual_w > 16 \<and> actual_h > 16
                             then place_icon xl icon actual_x actual_y actual_w actual_h g2
                             else place_icon xl icon x y w h g2) of
                         None \<Rightarrow> None
                       | Some g3 \<Rightarrow> imlib_free_image g3)))"

section \<open>Initialisation\<close>

text \<open>
  The darkening of one captured pixel (the loop body, lines 326-336) and the loop over
  the buffer \<^verbatim>\<open>direct\<close> (line 324).
\<close>

definition darken_pixel :: "DATA32 \<Rightarrow> DATA32" where
  "darken_pixel p =
     (let r = uint (drop_bit 16 p AND 0xFF);
          g = uint (drop_bit 8 p AND 0xFF);
          b = uint (p AND 0xFF);
          r = (r * (255 - 160)) sdiv 255;
          g = (g * (255 - 160)) sdiv 255;
          b = (b * (255 - 160)) sdiv 255
      in 0xFF000000 OR word_of_int (push_bit 16 r) OR word_of_int (push_bit 8 g) OR word_of_int b)"

function darken_loop :: "DATA32 list \<Rightarrow> int \<Rightarrow> int \<Rightarrow> DATA32 list" where
  "darken_loop direct i n =
     (if i < n then darken_loop (direct[nat i := darken_pixel (direct ! nat i)]) (i + 1) n
      else direct)"
  by pat_completeness auto
termination
  by (relation "measure (\<lambda>(direct, i, n). nat (n - i))") auto

text \<open>
  What \<^verbatim>\<open>xlunch_native_init\<close> gets from its surroundings: the block \<^verbatim>\<open>malloc\<close> returns
  (uninitialised, so any value of the record) or \<open>NULL\<close>; whether the display opens; the
  id of the created window; whether the Xft object and the two Imlib images can be
  created; and, when the root image capture succeeds, the contents of the buffer
  \<^verbatim>\<open>direct\<close> after it (\<^verbatim>\<open>width * height\<close> pixels).
\<close>

record init_env =
  malloc_result :: "XLunchNative ptr"
  display_opened :: bool
  created_window :: nat
  xft_draw_created :: bool
  render_buffer_created :: bool
  background_created :: bool
  root_capture :: "DATA32 list option"

text \<open>
  \<^verbatim>\<open>xlunch_native_init\<close> (lines 181-358). \<open>None\<close> is a division by a zero cell size
  (\<^verbatim>\<open>icon_size\<close> of -40 or -60). \<^verbatim>\<open>num_entries\<close> is not assigned.
\<close>

definition xlunch_native_init ::
  "init_env \<Rightarrow> int \<Rightarrow> int \<Rightarrow> int \<Rightarrow> display \<Rightarrow> (XLunchNative ptr \<times> display) option" where
  "xlunch_native_init env w h isize g =
     (case malloc_result env of
        NULL \<Rightarrow> Some (NULL, g)
      | Ptr m \<Rightarrow>
          let xl = m\<lparr>window := 0, xft_draw := NULL, background_image := NULL,
                     render_buffer := NULL, dirty := 1\<rparr>
          in if \<not> display_opened env then Some (NULL, g)
             else
               let xl = xl\<lparr>width := w, height := h, icon_size := isize, padding := 20\<rparr>;
                   xl = xl\<lparr>cell_width := isize + padding xl * 2\<rparr>;
                   xl = xl\<lparr>cell_height := isize + padding xl * 2 + 20\<rparr>
               in case c_div (w - padding xl) (cell_width xl) of
                    None \<Rightarrow> None
                  | Some c \<Rightarrow>
                      (case c_div (h - padding xl) (cell_height xl) of
                         None \<Rightarrow> None
                       | Some r \<Rightarrow>
                           let xl = xl\<lparr>cols := c, rows := r\<rparr>;
                               xl = xl\<lparr>window := created_window env\<rparr>;
                               xl = xl\<lparr>xft_draw := (if xft_draw_created env then Ptr (window xl) else NULL)\<rparr>;
                               xl = xl\<lparr>text_color := ''#ffffff'', highlight_color := ''#6060ff'',
                                       background_color := ''#000000''\<rparr>;
                               xl = xl\<lparr>settings_button_hovered := 0, logo_button_hovered := 0\<rparr>;
                               xl = xl\<lparr>settings_x := w - 150, settings_y := 30,
                                       settings_w := 140, settings_h := 52\<rparr>;
                               xl = xl\<lparr>logo_x := 45, logo_y := 10, logo_w := 245, logo_h := 100\<rparr>;
                               xl = xl\<lparr>scrolled_past := 0, noscroll := 0, entries_count := 0,
                                       scrollbar_color := 0x3CFFFFFF, scrollindicator_color := 0x70FFFFFF,
                                       scroll_debounce_counter := 0\<rparr>;
                               g = g\<lparr>context_drawable := Ptr (window xl)\<rparr>;
                               (rb, g) = imlib_create_image (render_buffer_created env) w h g;
                               xl = xl\<lparr>render_buffer := rb\<rparr>;
                               (bg, g) = imlib_create_image (background_created env) w h g;
                               xl = xl\<lparr>background_image := bg\<rparr>
                           in if background_image xl \<noteq> NULL then
                                (case apply_to_current_image (Set_has_alpha 0)
                                        (imlib_context_set_image (background_image xl) g) of
                                   None \<Rightarrow> None
                                 | Some g \<Rightarrow>
                                     (case root_capture env of
                                        Some direct \<Rightarrow>
                                          (case apply_to_current_image
                                                  (Put_back_data (darken_loop direct 0 (w * h))) g of
                                             None \<Rightarrow> None
                                           | Some g \<Rightarrow> Some (Ptr xl, g))
                                      | None \<Rightarrow>
                                          let g = g\<lparr>context_color := (46, 52, 64, 255)\<rparr>
                                          in (case apply_to_current_image
                                                     (Fill_rectangle (context_color g) 0 0 w h) g of
                                                None \<Rightarrow> None
                                              | Some g \<Rightarrow> Some (Ptr xl, g))))
                              else Some (Ptr xl, g)))"

section \<open>Maximum scroll, as specified and as computed\<close>

text \<open>
  The specification's bound: \<open>(entryCount - 1) / cols - rows + 1\<close> under floor division,
  clamped to 0 if negative. It is written from the specification's words, to be
  compared with what the code computes.
\<close>

definition spec_max_scroll :: "XLunchNative \<Rightarrow> int" where
  "spec_max_scroll xl = max 0 ((entries_count xl - 1) div cols xl - rows xl + 1)"

text \<open>
  The bound the code clamps to: \<^verbatim>\<open>max_scroll\<close> of line 884, with C's division, and 0
  when that is negative (lines 888-890).
\<close>

definition c_max_scroll :: "XLunchNative \<Rightarrow> int" where
  "c_max_scroll xl = max 0 ((entries_count xl - 1) sdiv cols xl - rows xl + 1)"

section \<open>Concrete inputs\<close>

text \<open>
  A zeroed block for \<^verbatim>\<open>malloc\<close>, a display with no images and no requests, and
  surroundings in which every resource is created and the root capture fails.
\<close>

definition zeroed :: XLunchNative where
  "zeroed = \<lparr>window = 0, xft_draw = NULL, text_color = [], highlight_color = [],
     background_color = [], width = 0, height = 0, icon_size = 0, cols = 0, rows = 0,
     cell_width = 0, cell_height = 0, padding = 0, num_entries = 0, background_image = NULL,
     settings_button_hovered = 0, logo_button_hovered = 0,
     settings_x = 0, settings_y = 0, settings_w = 0, settings_h = 0,
     logo_x = 0, logo_y = 0, logo_w = 0, logo_h = 0,
     scrolled_past = 0, noscroll = 0, entries_count = 0,
     scrollbar_color = 0, scrollindicator_color = 0, scroll_debounce_counter = 0,
     render_buffer = NULL, dirty = 0\<rparr>"

definition no_display :: display where
  "no_display = \<lparr>drawables = (\<lambda>d. []), gc_foreground = 0, images = (\<lambda>i. None), next_image = 1,
     context_image = NULL, context_drawable = NULL, context_blend = 0,
     context_color = (0, 0, 0, 0), image_files = (\<lambda>path. None)\<rparr>"

definition plain_env :: init_env where
  "plain_env = \<lparr>malloc_result = Ptr zeroed, display_opened = True, created_window = 7,
     xft_draw_created = True, render_buffer_created = True, background_created = True,
     root_capture = None\<rparr>"

text \<open>
  The state \<^verbatim>\<open>xlunch_native_init(800, 600, 64)\<close> returns there (lemma
  \<open>init_800x600_display\<close>).
\<close>

definition window_800x600 :: XLunchNative where
  "window_800x600 = \<lparr>window = 7, xft_draw = Ptr 7, text_color = ''#ffffff'',
     highlight_color = ''#6060ff'', background_color = ''#000000'',
     width = 800, height = 600, icon_size = 64, cols = 7, rows = 4,
     cell_width = 104, cell_height = 124, padding = 20, num_entries = 0,
     background_image = Ptr 2,
     settings_button_hovered = 0, logo_button_hovered = 0,
     settings_x = 650, settings_y = 30, settings_w = 140, settings_h = 52,
     logo_x = 45, logo_y = 10, logo_w = 245, logo_h = 100,
     scrolled_past = 0, noscroll = 0, entries_count = 0,
     scrollbar_color = 0x3CFFFFFF, scrollindicator_color = 0x70FFFFFF,
     scroll_debounce_counter = 0, render_buffer = Ptr 1, dirty = 1\<rparr>"

text \<open>The state \<^verbatim>\<open>xlunch_native_init(800, 100, 64)\<close> returns there (lemma \<open>init_800x100\<close>).\<close>

definition window_800x100 :: XLunchNative where
  "window_800x100 = \<lparr>window = 7, xft_draw = Ptr 7, text_color = ''#ffffff'',
     highlight_color = ''#6060ff'', background_color = ''#000000'',
     width = 800, height = 100, icon_size = 64, cols = 7, rows = 0,
     cell_width = 104, cell_height = 124, padding = 20, num_entries = 0,
     background_image = Ptr 2,
     settings_button_hovered = 0, logo_button_hovered = 0,
     settings_x = 650, settings_y = 30, settings_w = 140, settings_h = 52,
     logo_x = 45, logo_y = 10, logo_w = 245, logo_h = 100,
     scrolled_past = 0, noscroll = 0, entries_count = 0,
     scrollbar_color = 0x3CFFFFFF, scrollindicator_color = 0x70FFFFFF,
     scroll_debounce_counter = 0, render_buffer = Ptr 1, dirty = 1\<rparr>"

text \<open>
  The display \<^verbatim>\<open>xlunch_native_init(800, 600, 64)\<close> leaves there (lemma
  \<open>init_800x600_display\<close>): image 1 is the render buffer, image 2 the flat backdrop, and
  nothing has been drawn on window 7.
\<close>

definition display_800x600 :: display where
  "display_800x600 = \<lparr>drawables = (\<lambda>d. []), gc_foreground = 0,
     images = ((\<lambda>i. None)(1 \<mapsto> \<lparr>image_width = 800, image_height = 600, image_ops = []\<rparr>,
                            2 \<mapsto> \<lparr>image_width = 800, image_height = 600,
                                 image_ops = [Set_has_alpha 0, Fill_rectangle (46, 52, 64, 255) 0 0 800 600]\<rparr>)),
     next_image = 3, context_image = Ptr 2, context_drawable = Ptr 7, context_blend = 0,
     context_color = (46, 52, 64, 255), image_files = (\<lambda>path. None)\<rparr>"

text \<open>The same surroundings with a root capture of two pixels, for a 2 x 1 window.\<close>

definition capture_env :: init_env where
  "capture_env = plain_env\<lparr>root_capture := Some [0x00FF8000, 0x12FFFFFF]\<rparr>"


section \<open>Division and initialisation lemmas\<close>

declare darken_loop.simps [simp del] rounded_rect_j.simps [simp del] rounded_rect_i.simps [simp del]

lemma sdiv_nonneg: "0 \<le> a \<Longrightarrow> 0 < b \<Longrightarrow> (a::int) sdiv b = a div b"
  by (simp add: signed_divide_int_def sgn_if)

lemma smod_nonneg: "0 \<le> a \<Longrightarrow> 0 < b \<Longrightarrow> (a::int) smod b = a mod b"
  by (simp add: signed_modulo_int_def sgn_if)

lemma init_800x100:
  "map_option fst (xlunch_native_init plain_env 800 100 64 no_display) = Some (Ptr window_800x100)"
  by (simp add: xlunch_native_init_def plain_env_def zeroed_def no_display_def window_800x100_def
      c_div_def signed_divide_int_def imlib_create_image_def imlib_context_set_image_def
      apply_to_current_image_def current_image_def Let_def)

lemma init_800x600_display:
  "xlunch_native_init plain_env 800 600 64 no_display = Some (Ptr window_800x600, display_800x600)"
  by (simp add: xlunch_native_init_def plain_env_def zeroed_def no_display_def window_800x600_def
      display_800x600_def numeral_2_eq_2 numeral_3_eq_3
      c_div_def signed_divide_int_def imlib_create_image_def imlib_context_set_image_def
      apply_to_current_image_def current_image_def Let_def)

text \<open>
  What \<^verbatim>\<open>xlunch_native_init\<close> returns when the block is allocated and the display opens,
  field by field.
\<close>

lemma init_returns:
  assumes "malloc_result env = Ptr m" "display_opened env" "isize + 40 \<noteq> 0" "isize + 60 \<noteq> 0"
  shows "\<exists>xl g'. xlunch_native_init env w h isize g = Some (Ptr xl, g') \<and>
      width xl = w \<and> height xl = h \<and> icon_size xl = isize \<and> padding xl = 20 \<and>
      cell_width xl = isize + 40 \<and> cell_height xl = isize + 60 \<and>
      cols xl = (w - 20) sdiv (isize + 40) \<and> rows xl = (h - 20) sdiv (isize + 60) \<and>
      scrolled_past xl = 0 \<and> noscroll xl = 0 \<and> entries_count xl = 0 \<and>
      num_entries xl = num_entries m \<and>
      settings_button_hovered xl = 0 \<and> logo_button_hovered xl = 0 \<and>
      settings_x xl = w - 150 \<and> settings_y xl = 30 \<and> settings_w xl = 140 \<and> settings_h xl = 52 \<and>
      logo_x xl = 45 \<and> logo_y xl = 10 \<and> logo_w xl = 245 \<and> logo_h xl = 100 \<and>
      window xl = created_window env \<and>
      xft_draw xl = (if xft_draw_created env then Ptr (created_window env) else NULL) \<and>
      (render_buffer xl = NULL \<longleftrightarrow> \<not> render_buffer_created env) \<and>
      (background_image xl = NULL \<longleftrightarrow> \<not> background_created env)"
proof (cases "render_buffer_created env"; cases "background_created env"; cases "root_capture env")
qed (use assms in \<open>simp_all add: xlunch_native_init_def c_div_def imlib_create_image_def
      imlib_context_set_image_def apply_to_current_image_def current_image_def Let_def add.commute\<close>)

section \<open>Scroll state machine: properties\<close>

text \<open>
  C5. With window 800 x 600 and icon size 64, initialisation (whenever it returns a
  state: the block is allocated and the display opens) derives cell width 104, cell
  height 124, 7 columns and 4 rows, and offset 0. With 50 entries the maximum scroll is
  \<open>(50 - 1) / 7 - 4 + 1 = 4\<close>, and \<^verbatim>\<open>xlunch_native_set_scroll_level(xl, 100)\<close> stores
  offset 4 and returns 1 (changed).
\<close>

theorem init_800x600_scroll_scenario:
  assumes "malloc_result env = Ptr m" "display_opened env"
  shows "\<exists>xl g'. xlunch_native_init env 800 600 64 g = Some (Ptr xl, g') \<and>
        cell_width xl = 104 \<and> cell_height xl = 124 \<and> cols xl = 7 \<and> rows xl = 4 \<and>
        scrolled_past xl = 0 \<and>
        (50 - 1) sdiv cols xl - rows xl + 1 = 4 \<and>
        xlunch_native_set_scroll_level (Ptr (xl\<lparr>entries_count := 50\<rparr>)) 100 =
          Some (Ptr (xl\<lparr>entries_count := 50, scrolled_past := 4\<rparr>), 1)"
proof -
  from init_returns [OF assms, of 64 800 600 g]
  obtain xl g' where init: "xlunch_native_init env 800 600 64 g = Some (Ptr xl, g')"
    and lay: "cell_width xl = 104" "cell_height xl = 124" "cols xl = (800 - 20) sdiv (64 + 40)"
       "rows xl = (600 - 20) sdiv (64 + 60)" "scrolled_past xl = 0" "noscroll xl = 0"
    by auto
  have c: "cols xl = 7" and r: "rows xl = 4"
    using lay by (simp_all add: signed_divide_int_def)
  have "xlunch_native_set_scroll_level (Ptr (xl\<lparr>entries_count := 50\<rparr>)) 100 =
          Some (Ptr (xl\<lparr>entries_count := 50, scrolled_past := 4\<rparr>), 1)"
    using lay c r
    by (simp add: xlunch_native_set_scroll_level_def c_div_def signed_divide_int_def Let_def)
  with init lay c r show ?thesis
    by (simp add: signed_divide_int_def)
qed

theorem init_800x600_scroll_scenario_witness:
  "\<exists>xl g'. xlunch_native_init plain_env 800 600 64 no_display = Some (Ptr xl, g') \<and>
        cell_width xl = 104 \<and> cell_height xl = 124 \<and> cols xl = 7 \<and> rows xl = 4 \<and>
        scrolled_past xl = 0 \<and>
        (50 - 1) sdiv cols xl - rows xl + 1 = 4 \<and>
        xlunch_native_set_scroll_level (Ptr (xl\<lparr>entries_count := 50\<rparr>)) 100 =
          Some (Ptr (xl\<lparr>entries_count := 50, scrolled_past := 4\<rparr>), 1)"
  using init_800x600_scroll_scenario [of plain_env zeroed no_display]
  by (simp add: plain_env_def)

text \<open>
  C7. \<^verbatim>\<open>xlunch_native_set_scroll_level\<close> leaves the state as it is and returns 0 when the
  requested value equals the current offset or scrolling is disabled. In every case in
  which it returns (\<^verbatim>\<open>cols\<close> is not 0), the returned value is 1 exactly when the stored
  offset after the call differs from the one before, and 0 otherwise.
\<close>

theorem set_scroll_level_reports_change:
  "(noscroll xl \<noteq> 0 \<or> r = scrolled_past xl \<longrightarrow>
      xlunch_native_set_scroll_level (Ptr xl) r = Some (Ptr xl, 0)) \<and>
   (cols xl \<noteq> 0 \<longrightarrow>
      (\<exists>xl'. xlunch_native_set_scroll_level (Ptr xl) r =
               Some (Ptr xl', c_bool (scrolled_past xl' \<noteq> scrolled_past xl))))"
  by (auto simp: xlunch_native_set_scroll_level_def c_div_def c_bool_def Let_def)

theorem set_scroll_level_reports_change_witness:
  "xlunch_native_set_scroll_level (Ptr window_800x600) 0 = Some (Ptr window_800x600, 0) \<and>
   (\<exists>xl'. xlunch_native_set_scroll_level (Ptr window_800x600) 3 =
            Some (Ptr xl', c_bool (scrolled_past xl' \<noteq> scrolled_past window_800x600)))"
  using set_scroll_level_reports_change [of window_800x600 0]
    set_scroll_level_reports_change [of window_800x600 3]
  by (simp add: window_800x600_def)

text \<open>
  C6. \<^verbatim>\<open>xlunch_native_set_scroll_level\<close> is idempotent on its target: the first call
  returns whenever \<^verbatim>\<open>cols\<close> is not 0, and after any first call that returns, a second
  call with the same requested value returns 0 (unchanged) and leaves the state of the
  first call, also when the first call clamped the request.
\<close>

theorem set_scroll_level_idempotent:
  "(cols xl \<noteq> 0 \<longrightarrow> (\<exists>p1 c1. xlunch_native_set_scroll_level (Ptr xl) r = Some (p1, c1))) \<and>
   (\<forall>p1 c1. xlunch_native_set_scroll_level (Ptr xl) r = Some (p1, c1) \<longrightarrow>
       xlunch_native_set_scroll_level p1 r = Some (p1, 0))"
  by (auto simp: xlunch_native_set_scroll_level_def c_div_def c_bool_def Let_def split: if_splits)

theorem set_scroll_level_idempotent_witness:
  "xlunch_native_set_scroll_level (Ptr (window_800x600\<lparr>entries_count := 50\<rparr>)) 100 =
     Some (Ptr (window_800x600\<lparr>entries_count := 50, scrolled_past := 4\<rparr>), 1) \<and>
   xlunch_native_set_scroll_level (Ptr (window_800x600\<lparr>entries_count := 50, scrolled_past := 4\<rparr>)) 100 =
     Some (Ptr (window_800x600\<lparr>entries_count := 50, scrolled_past := 4\<rparr>), 0)"
proof -
  have first: "xlunch_native_set_scroll_level (Ptr (window_800x600\<lparr>entries_count := 50\<rparr>)) 100 =
     Some (Ptr (window_800x600\<lparr>entries_count := 50, scrolled_past := 4\<rparr>), 1)"
    by (simp add: window_800x600_def xlunch_native_set_scroll_level_def c_div_def
        signed_divide_int_def Let_def)
  with set_scroll_level_idempotent [of "window_800x600\<lparr>entries_count := 50\<rparr>" 100]
  show ?thesis by blast
qed

text \<open>
  C4, as stated, fails. The state that \<^verbatim>\<open>xlunch_native_init(800, 100, 64)\<close> returns has 7
  columns, 0 rows and 0 entries; its offset 0 lies in \<open>[0, maxScroll]\<close> for the
  floor-division \<open>maxScroll = max 0 ((0 - 1) div 7 - 0 + 1) = 0\<close>. The call
  \<^verbatim>\<open>xlunch_native_set_scroll_level(xl, 5)\<close> stores offset 1: C computes
  \<open>(0 - 1) / 7 = 0\<close>, so \<^verbatim>\<open>max_scroll\<close> is 1.
\<close>

theorem set_scroll_floor_bound_counterexample:
  "1 \<le> cols window_800x100 \<and> noscroll window_800x100 = 0 \<and>
   0 \<le> scrolled_past window_800x100 \<and>
   scrolled_past window_800x100 \<le> spec_max_scroll window_800x100 \<and>
   xlunch_native_set_scroll_level (Ptr window_800x100) 5 =
     Some (Ptr (window_800x100\<lparr>scrolled_past := 1\<rparr>), 1) \<and>
   \<not> scrolled_past (window_800x100\<lparr>scrolled_past := 1\<rparr>) \<le> spec_max_scroll window_800x100"
  by (simp add: window_800x100_def spec_max_scroll_def xlunch_native_set_scroll_level_def
      c_div_def signed_divide_int_def Let_def)

text \<open>
  C4, amended. With \<open>cols \<ge> 1\<close> and scrolling enabled, for every starting offset in
  \<open>[0, maxScroll]\<close> and every requested value, \<^verbatim>\<open>xlunch_native_set_scroll_level\<close>
  returns, and the offset it stores is the request clamped into \<open>[0, maxScroll]\<close>: the
  maximum for a request above it, 0 for a negative one, the request itself otherwise;
  so \<open>0 \<le> offset \<le> maxScroll\<close>, no other field changes, and the returned flag tells
  whether the offset changed. Here \<open>maxScroll = (entryCount - 1) / cols - rows + 1\<close>
  under C's truncating division, clamped to 0 if negative; it is the floor-division
  bound whenever \<open>entryCount \<ge> 1\<close>. The values line 884 computes are taken to fit an
  \<^verbatim>\<open>int\<close>.
\<close>

theorem set_scroll_level_in_range:
  assumes "1 \<le> cols xl" "noscroll xl = 0"
    and "0 \<le> scrolled_past xl" "scrolled_past xl \<le> c_max_scroll xl"
    and "c_int (entries_count xl - 1)"
      "c_int ((entries_count xl - 1) sdiv cols xl - rows xl)"
      "c_int ((entries_count xl - 1) sdiv cols xl - rows xl + 1)"
  shows "\<exists>xl' changed. xlunch_native_set_scroll_level (Ptr xl) r = Some (Ptr xl', changed) \<and>
           xl' = xl\<lparr>scrolled_past := max 0 (min r (c_max_scroll xl))\<rparr> \<and>
           changed = c_bool (scrolled_past xl' \<noteq> scrolled_past xl) \<and>
           0 \<le> scrolled_past xl' \<and> scrolled_past xl' \<le> c_max_scroll xl \<and>
           c_max_scroll xl' = c_max_scroll xl \<and>
           (c_max_scroll xl < r \<longrightarrow> scrolled_past xl' = c_max_scroll xl) \<and>
           (r < 0 \<longrightarrow> scrolled_past xl' = 0) \<and>
           (0 \<le> r \<and> r \<le> c_max_scroll xl \<longrightarrow> scrolled_past xl' = r) \<and>
           (1 \<le> entries_count xl \<longrightarrow> c_max_scroll xl = spec_max_scroll xl)"
proof -
  have eq: "1 \<le> entries_count xl \<longrightarrow> c_max_scroll xl = spec_max_scroll xl"
    using assms(1) by (simp add: c_max_scroll_def spec_max_scroll_def sdiv_nonneg)
  have call: "xlunch_native_set_scroll_level (Ptr xl) r =
      Some (Ptr (xl\<lparr>scrolled_past := max 0 (min r (c_max_scroll xl))\<rparr>),
            c_bool (max 0 (min r (c_max_scroll xl)) \<noteq> scrolled_past xl))"
  proof (cases "r = scrolled_past xl")
    case True
    with assms(3,4) have "max 0 (min r (c_max_scroll xl)) = scrolled_past xl" by simp
    with True assms(2) show ?thesis
      by (simp add: xlunch_native_set_scroll_level_def c_bool_def)
  next
    case False
    with assms(1,2) show ?thesis
      by (auto simp: xlunch_native_set_scroll_level_def c_div_def c_max_scroll_def c_bool_def Let_def)
  qed
  have same: "c_max_scroll (xl\<lparr>scrolled_past := max 0 (min r (c_max_scroll xl))\<rparr>) = c_max_scroll xl"
    by (simp add: c_max_scroll_def)
  have nonneg: "0 \<le> c_max_scroll xl" by (simp add: c_max_scroll_def)
  from call same nonneg eq show ?thesis by auto
qed

theorem set_scroll_level_in_range_witness:
  "xlunch_native_set_scroll_level (Ptr (window_800x600\<lparr>entries_count := 50\<rparr>)) 100 =
     Some (Ptr (window_800x600\<lparr>entries_count := 50, scrolled_past := 4\<rparr>), 1) \<and>
   xlunch_native_set_scroll_level (Ptr (window_800x600\<lparr>entries_count := 50, scrolled_past := 2\<rparr>)) (- 3) =
     Some (Ptr (window_800x600\<lparr>entries_count := 50, scrolled_past := 0\<rparr>), 1) \<and>
   c_max_scroll (window_800x600\<lparr>entries_count := 50\<rparr>) = 4 \<and>
   spec_max_scroll (window_800x600\<lparr>entries_count := 50\<rparr>) = 4"
proof -
  let ?a = "window_800x600\<lparr>entries_count := 50\<rparr>"
  let ?b = "window_800x600\<lparr>entries_count := 50, scrolled_past := 2\<rparr>"
  have ma: "c_max_scroll ?a = 4" and mb: "c_max_scroll ?b = 4"
    by (simp_all add: c_max_scroll_def window_800x600_def signed_divide_int_def)
  have ha: "1 \<le> cols ?a" "noscroll ?a = 0" "0 \<le> scrolled_past ?a" "scrolled_past ?a \<le> c_max_scroll ?a"
    "c_int (entries_count ?a - 1)" "c_int ((entries_count ?a - 1) sdiv cols ?a - rows ?a)"
    "c_int ((entries_count ?a - 1) sdiv cols ?a - rows ?a + 1)"
    unfolding ma by (simp_all add: window_800x600_def c_int_def signed_divide_int_def)
  have hb: "1 \<le> cols ?b" "noscroll ?b = 0" "0 \<le> scrolled_past ?b" "scrolled_past ?b \<le> c_max_scroll ?b"
    "c_int (entries_count ?b - 1)" "c_int ((entries_count ?b - 1) sdiv cols ?b - rows ?b)"
    "c_int ((entries_count ?b - 1) sdiv cols ?b - rows ?b + 1)"
    unfolding mb by (simp_all add: window_800x600_def c_int_def signed_divide_int_def)
  have ea: "entries_count ?a = 50" by simp
  from set_scroll_level_in_range [OF ha, of 100] set_scroll_level_in_range [OF hb, of "- 3"] ma mb ea
  show ?thesis by (simp add: c_bool_def window_800x600_def)
qed

section \<open>Hit test and hover: properties\<close>

text \<open>
  C9. For every pointer coordinate, \<^verbatim>\<open>xlunch_native_check_button_hover\<close> returns one of
  0 (none), 1 (settings), 2 (logo), so a point never resolves to both buttons; a point
  outside both rectangles resolves to 0; and after \<^verbatim>\<open>xlunch_native_handle_hover\<close> the
  settings flag is set exactly when the point resolved to settings, the logo flag
  exactly when it resolved to logo, so at most one of the two flags is set.
\<close>

theorem button_hover_exclusive:
  "xlunch_native_check_button_hover (Ptr xl) mx my \<in> {0, 1, 2} \<and>
   (\<not> (settings_x xl \<le> mx \<and> mx \<le> settings_x xl + settings_w xl \<and>
        settings_y xl \<le> my \<and> my \<le> settings_y xl + settings_h xl) \<and>
    \<not> (logo_x xl \<le> mx \<and> mx \<le> logo_x xl + logo_w xl \<and>
        logo_y xl \<le> my \<and> my \<le> logo_y xl + logo_h xl) \<longrightarrow>
      xlunch_native_check_button_hover (Ptr xl) mx my = 0) \<and>
   (\<exists>xl'. xlunch_native_handle_hover (Ptr xl) mx my = Ptr xl' \<and>
      settings_button_hovered xl' = c_bool (xlunch_native_check_button_hover (Ptr xl) mx my = 1) \<and>
      logo_button_hovered xl' = c_bool (xlunch_native_check_button_hover (Ptr xl) mx my = 2) \<and>
      \<not> (settings_button_hovered xl' \<noteq> 0 \<and> logo_button_hovered xl' \<noteq> 0))"
  by (simp add: xlunch_native_check_button_hover_def xlunch_native_handle_hover_def c_bool_def Let_def)

theorem button_hover_exclusive_witness:
  "xlunch_native_check_button_hover (Ptr window_800x600) 400 120 = 0 \<and>
   xlunch_native_handle_hover (Ptr (window_800x600\<lparr>logo_button_hovered := 1\<rparr>)) 400 120 = Ptr window_800x600"
proof -
  have "xlunch_native_handle_hover (Ptr (window_800x600\<lparr>logo_button_hovered := 1\<rparr>)) 400 120 = Ptr window_800x600"
    by (simp add: window_800x600_def xlunch_native_handle_hover_def xlunch_native_check_button_hover_def Let_def)
  then show ?thesis
  using button_hover_exclusive [of window_800x600 400 120]
  by (simp add: window_800x600_def)
qed

section \<open>Event dispatcher: properties\<close>

text \<open>
  A scroll request from the dispatcher returns 1 or 2 and leaves \<^verbatim>\<open>*selected_entry\<close>
  at -1; a left click returns with the state unchanged, and selects only at or below
  the header line.
\<close>

lemma scroll_and_return_sel:
  "cols xl \<noteq> 0 \<Longrightarrow> \<exists>code xl'. scroll_and_return xl n = Some (code, Ptr xl', -1) \<and> (code = 1 \<or> code = 2)
     \<and> num_entries xl' = num_entries xl"
  by (auto simp: scroll_and_return_def xlunch_native_set_scroll_level_def c_div_def Let_def)

lemma left_click_sel:
  assumes "cell_width xl \<noteq> 0" "cell_height xl \<noteq> 0"
  shows "\<exists>code sel. left_click xl x y = Some (code, Ptr xl, sel) \<and>
           (sel = -1 \<and> code \<in> {1, -2, -3} \<or>
            code = 0 \<and> 0 \<le> sel \<and> sel < num_entries xl \<and> 140 \<le> y)"
  using assms
  by (auto simp: left_click_def c_div_def Let_def)

lemma handle_event_sel:
  assumes "cell_width xl \<noteq> 0" "cell_height xl \<noteq> 0" "cols xl \<noteq> 0"
  shows "\<exists>code xl' sel. handle_event xl ev = Some (code, Ptr xl', sel) \<and>
           num_entries xl' = num_entries xl \<and>
           (sel = -1 \<or>
            code = 0 \<and> 0 \<le> sel \<and> sel < num_entries xl \<and>
              (\<exists>x y. ev = ButtonPress 1 x y \<and> 140 \<le> y))"
proof (cases ev)
  case (KeyPress k)
  note S = scroll_and_return_sel [OF assms(3)]
  from KeyPress show ?thesis
    using S [of "scrolled_past xl - rows xl"] S [of "scrolled_past xl + rows xl"] S [of 0]
      S [of "entries_count xl"] S [of "scrolled_past xl - 1"] S [of "scrolled_past xl + 1"]
    by auto
next
  case (ButtonPress b x y)
  note S = scroll_and_return_sel [OF assms(3)]
  from ButtonPress show ?thesis
    using S [of "scrolled_past xl - 1"] S [of "scrolled_past xl + 1"]
      left_click_sel [OF assms(1,2), of x y]
    by auto
next
  case (MotionNotify x y)
  then show ?thesis
    by (simp add: xlunch_native_handle_hover_def Let_def)
qed simp_all

text \<open>
  C10. On every invocation with valid arguments (and nonzero \<^verbatim>\<open>cell_width\<close>,
  \<^verbatim>\<open>cell_height\<close> and \<^verbatim>\<open>cols\<close>, so that no division traps), the dispatcher returns,
  having drained at most the first pending event, with \<^verbatim>\<open>*selected_entry\<close> equal to -1
  on every path except a left click at \<open>y \<ge> 140\<close> that resolves to a grid entry: then
  the returned code is 0 and \<open>0 \<le> index < num_entries\<close>. Whenever the returned code is
  not 0 the index is -1.
\<close>

theorem handle_events_selection_index:
  assumes "cell_width xl \<noteq> 0" "cell_height xl \<noteq> 0" "cols xl \<noteq> 0"
  shows "\<exists>code xl' sel.
           xlunch_native_handle_events (Ptr xl) (Ptr s0) pending =
             Some (code, Ptr xl', Ptr sel, tl pending) \<and>
           num_entries xl' = num_entries xl \<and>
           (sel = -1 \<or>
            code = 0 \<and> 0 \<le> sel \<and> sel < num_entries xl \<and>
              (\<exists>x y rest. pending = ButtonPress 1 x y # rest \<and> 140 \<le> y)) \<and>
           (code \<noteq> 0 \<longrightarrow> sel = -1)"
proof (cases pending)
  case Nil
  then show ?thesis by (simp add: xlunch_native_handle_events_def)
next
  case (Cons ev rest)
  from handle_event_sel [OF assms, of ev]
  obtain code xl' sel where "handle_event xl ev = Some (code, Ptr xl', sel)"
    "num_entries xl' = num_entries xl"
    "sel = -1 \<or> code = 0 \<and> 0 \<le> sel \<and> sel < num_entries xl \<and> (\<exists>x y. ev = ButtonPress 1 x y \<and> 140 \<le> y)"
    by blast
  with Cons show ?thesis
    by (auto simp: xlunch_native_handle_events_def)
qed

theorem handle_events_selection_index_witness:
  "xlunch_native_handle_events (Ptr (window_800x600\<lparr>num_entries := 50\<rparr>)) (Ptr 99)
      [ButtonPress 1 110 145, Expose] =
     Some (0, Ptr (window_800x600\<lparr>num_entries := 50\<rparr>), Ptr 1, [Expose]) \<and>
   xlunch_native_handle_events (Ptr (window_800x600\<lparr>num_entries := 50\<rparr>)) (Ptr 99)
      [ButtonPress 1 400 120, Expose] =
     Some (1, Ptr (window_800x600\<lparr>num_entries := 50\<rparr>), Ptr (- 1), [Expose])"
proof -
  have a: "xlunch_native_handle_events (Ptr (window_800x600\<lparr>num_entries := 50\<rparr>)) (Ptr 99)
      [ButtonPress 1 110 145, Expose] =
     Some (0, Ptr (window_800x600\<lparr>num_entries := 50\<rparr>), Ptr 1, [Expose])"
    by (simp add: xlunch_native_handle_events_def left_click_def window_800x600_def c_div_def
        signed_divide_int_def Let_def)
  have b: "xlunch_native_handle_events (Ptr (window_800x600\<lparr>num_entries := 50\<rparr>)) (Ptr 99)
      [ButtonPress 1 400 120, Expose] =
     Some (1, Ptr (window_800x600\<lparr>num_entries := 50\<rparr>), Ptr (- 1), [Expose])"
    by (simp add: xlunch_native_handle_events_def left_click_def window_800x600_def c_div_def
        signed_divide_int_def xlunch_native_check_button_hover_def Let_def)
  have "cell_width (window_800x600\<lparr>num_entries := 50\<rparr>) \<noteq> 0"
    "cell_height (window_800x600\<lparr>num_entries := 50\<rparr>) \<noteq> 0"
    "cols (window_800x600\<lparr>num_entries := 50\<rparr>) \<noteq> 0"
    by (simp_all add: window_800x600_def)
  from handle_events_selection_index [OF this, of 99 "[ButtonPress 1 110 145, Expose]"] a b
  show ?thesis by simp
qed

text \<open>
  C1, as stated, fails: with no event pending the dispatcher returns 1, and it returns
  the same 1 when it drains a pointer-motion event that changes nothing.
\<close>

theorem handle_events_continue_is_noop_counterexample:
  "xlunch_native_handle_events (Ptr window_800x600) (Ptr 0) [] =
     Some (1, Ptr window_800x600, Ptr (- 1), []) \<and>
   xlunch_native_handle_events (Ptr window_800x600) (Ptr 0) [MotionNotify 400 300] =
     Some (1, Ptr window_800x600, Ptr (- 1), [])"
  by (simp add: xlunch_native_handle_events_def xlunch_native_handle_hover_def
      xlunch_native_check_button_hover_def window_800x600_def Let_def)

text \<open>
  C1, amended. The dispatcher's return value distinguishes terminate (0), redraw (2) and
  continue (1); a call with no pending event returns 1 and leaves the state as it is,
  and 1 is also the code returned when an event is drained and consumed with no effect
  on the caller (pointer motion, which only updates the hover flags, or an event of a
  type the dispatcher does not know). Expose returns 2; the Escape key (keycode 9) and
  a client message return 0, all with index -1.
\<close>

theorem handle_events_codes:
  "xlunch_native_handle_events (Ptr xl) (Ptr s0) [] = Some (1, Ptr xl, Ptr (- 1), []) \<and>
   xlunch_native_handle_events (Ptr xl) (Ptr s0) (MotionNotify mx my # rest) =
     Some (1, xlunch_native_handle_hover (Ptr xl) mx my, Ptr (- 1), rest) \<and>
   xlunch_native_handle_events (Ptr xl) (Ptr s0) (OtherEvent # rest) =
     Some (1, Ptr xl, Ptr (- 1), rest) \<and>
   xlunch_native_handle_events (Ptr xl) (Ptr s0) (Expose # rest) =
     Some (2, Ptr xl, Ptr (- 1), rest) \<and>
   xlunch_native_handle_events (Ptr xl) (Ptr s0) (KeyPress 9 # rest) =
     Some (0, Ptr xl, Ptr (- 1), rest) \<and>
   xlunch_native_handle_events (Ptr xl) (Ptr s0) (ClientMessage # rest) =
     Some (0, Ptr xl, Ptr (- 1), rest)"
  by (simp add: xlunch_native_handle_events_def)


section \<open>Grid layout: the round trip\<close>

text \<open>
  The position of an entry, its column read back from \<open>x\<close> and its display row read
  back from \<open>y\<close>; then the left click at the position of an entry that is in view, and
  of one that is not.
\<close>

lemma entry_position:
  assumes "1 \<le> cols xl" "0 \<le> index"
  shows "xlunch_native_calculate_entry_position (Ptr xl) index (Ptr x0) (Ptr y0) =
           Some (Ptr ((index mod cols xl) * cell_width xl + (cell_width xl - icon_size xl) sdiv 2),
                 Ptr (140 + (index div cols xl - scrolled_past xl) * cell_height xl))"
  using assms
  by (simp add: xlunch_native_calculate_entry_position_def c_div_def c_mod_def
      sdiv_nonneg smod_nonneg Let_def)

lemma col_of_x:
  assumes "0 \<le> inset" "inset < cw" "0 \<le> (c::int)"
  shows "(c * cw + inset) sdiv cw = c"
proof -
  have cw: "0 < cw" using assms by simp
  have "0 \<le> c * cw + inset" using assms cw by simp
  then have "(c * cw + inset) sdiv cw = (c * cw + inset) div cw"
    using cw by (simp add: sdiv_nonneg)
  also have "\<dots> = c" using assms cw by simp
  finally show ?thesis .
qed

lemma row_of_y:
  assumes "0 < ch" "0 \<le> (d::int)"
  shows "(d * ch) sdiv ch = d"
  using assms by (simp add: sdiv_nonneg)

lemma left_click_at_entry:
  assumes lay: "1 \<le> cols xl" "0 < cell_height xl"
      "0 \<le> (cell_width xl - icon_size xl) sdiv 2"
      "(cell_width xl - icon_size xl) sdiv 2 < cell_width xl"
    and idx: "0 \<le> index" "index < num_entries xl"
    and vis: "0 \<le> index div cols xl - scrolled_past xl"
      "index div cols xl - scrolled_past xl < (height xl - 140) sdiv cell_height xl"
  shows "left_click xl ((index mod cols xl) * cell_width xl + (cell_width xl - icon_size xl) sdiv 2)
            (140 + (index div cols xl - scrolled_past xl) * cell_height xl) = Some (0, Ptr xl, index)"
proof -
  let ?c = "index mod cols xl" and ?d = "index div cols xl - scrolled_past xl"
  let ?inset = "(cell_width xl - icon_size xl) sdiv 2"
  have c0: "0 \<le> ?c" and c1: "?c < cols xl" using lay(1) by simp_all
  have cw: "0 < cell_width xl" using lay(3,4) by simp
  have x0: "0 \<le> ?c * cell_width xl + ?inset" using c0 cw lay(3) by simp
  have y0: "0 \<le> ?d * cell_height xl" using vis(1) lay(2) by simp
  have col: "(?c * cell_width xl + ?inset) sdiv cell_width xl = ?c"
    using col_of_x [OF lay(3,4) c0] .
  have row: "(?d * cell_height xl) sdiv cell_height xl = ?d"
    using row_of_y [OF lay(2) vis(1)] .
  have ind: "(?d + scrolled_past xl) * cols xl + ?c = index"
    by simp
  have ny: "\<not> ?d * cell_height xl < 0" using y0 by simp
  have nx: "\<not> ?c * cell_width xl + ?inset < 0" using x0 by simp
  have cwn: "cell_width xl \<noteq> 0" and chn: "cell_height xl \<noteq> 0" using cw lay(2) by simp_all
  have vis': "?d < (height xl - 140) sdiv cell_height xl" using vis(2) .
  show ?thesis
    unfolding left_click_def c_div_def Let_def
    using c0 c1 idx vis(1) vis'
    by (simp add: col row ny nx cwn chn x0 y0)
qed

lemma left_click_outside_view:
  assumes lay: "1 \<le> cols xl" "0 < cell_height xl"
      "0 \<le> (cell_width xl - icon_size xl) sdiv 2"
      "(cell_width xl - icon_size xl) sdiv 2 < cell_width xl"
    and idx: "0 \<le> index"
    and vis: "\<not> (0 \<le> index div cols xl - scrolled_past xl \<and>
      index div cols xl - scrolled_past xl < (height xl - 140) sdiv cell_height xl)"
  shows "\<exists>code. code \<noteq> 0 \<and>
      left_click xl ((index mod cols xl) * cell_width xl + (cell_width xl - icon_size xl) sdiv 2)
            (140 + (index div cols xl - scrolled_past xl) * cell_height xl) = Some (code, Ptr xl, -1)"
proof (cases "0 \<le> index div cols xl - scrolled_past xl")
  case False
  then have "index div cols xl - scrolled_past xl < 0" by simp
  then have "(index div cols xl - scrolled_past xl) * cell_height xl < 0"
    using lay(2) by (simp add: mult_less_0_iff)
  then have "140 + (index div cols xl - scrolled_past xl) * cell_height xl < 140" by simp
  then show ?thesis
    unfolding left_click_def Let_def by simp
next
  case True
  let ?c = "index mod cols xl" and ?d = "index div cols xl - scrolled_past xl"
  let ?inset = "(cell_width xl - icon_size xl) sdiv 2"
  from True vis have far: "\<not> ?d < (height xl - 140) sdiv cell_height xl" by simp
  have c0: "0 \<le> ?c" and c1: "?c < cols xl" using lay(1) by simp_all
  have cw: "0 < cell_width xl" using lay(3,4) by simp
  have x0: "0 \<le> ?c * cell_width xl + ?inset" using c0 cw lay(3) by simp
  have y0: "0 \<le> ?d * cell_height xl" using True lay(2) by simp
  have col: "(?c * cell_width xl + ?inset) sdiv cell_width xl = ?c"
    using col_of_x [OF lay(3,4) c0] .
  have row: "(?d * cell_height xl) sdiv cell_height xl = ?d"
    using row_of_y [OF lay(2) True] .
  have ny: "\<not> ?d * cell_height xl < 0" using y0 by simp
  have cwn: "cell_width xl \<noteq> 0" and chn: "cell_height xl \<noteq> 0" using cw lay(2) by simp_all
  show ?thesis
    unfolding left_click_def c_div_def Let_def
    using far by (simp add: col row ny cwn chn x0)
qed

lemma init_layout:
  assumes "malloc_result env = Ptr m" "display_opened env" "0 \<le> isize" "isize + 60 \<le> w"
  shows "\<exists>xl g'. xlunch_native_init env w h isize g = Some (Ptr xl, g') \<and>
      1 \<le> cols xl \<and> 0 < cell_height xl \<and>
      0 \<le> (cell_width xl - icon_size xl) sdiv 2 \<and>
      (cell_width xl - icon_size xl) sdiv 2 < cell_width xl"
proof -
  have nz: "isize + 40 \<noteq> 0" "isize + 60 \<noteq> 0" using assms(3) by simp_all
  from init_returns [OF assms(1,2) nz, of w h g]
  obtain xl g' where init: "xlunch_native_init env w h isize g = Some (Ptr xl, g')"
    and f: "icon_size xl = isize" "cell_width xl = isize + 40" "cell_height xl = isize + 60"
      "cols xl = (w - 20) sdiv (isize + 40)"
    by auto
  have "(w - 20) sdiv (isize + 40) = (w - 20) div (isize + 40)"
    using assms(3,4) by (simp add: sdiv_nonneg)
  moreover have "1 \<le> (w - 20) div (isize + 40)"
  proof -
    have "0 < (w - 20) div (isize + 40)"
      using assms(3,4) pos_imp_zdiv_pos_iff [of "isize + 40" "w - 20"] by simp
    then show ?thesis by simp
  qed
  ultimately have "1 \<le> cols xl" using f by simp
  moreover have "(cell_width xl - icon_size xl) sdiv 2 = 20"
    using f by (simp add: signed_divide_int_def)
  ultimately show ?thesis using init f assms(3) by auto
qed

text \<open>
  C3. In a state with at least one column, a positive cell height and the icon's left
  inset \<open>(cell_width - icon_size) / 2\<close> inside the cell (initialisation gives such a
  state for every icon size \<open>\<ge> 0\<close> and window width \<open>\<ge> icon size + 60\<close>, lemma
  \<open>init_layout\<close>), for every index in \<open>[0, num_entries)\<close> and every scroll offset: the
  forward layout returns a position, and a left click at that position is dispatched
  to the same index, with code 0, when the entry's display row \<open>index / cols - offset\<close>
  is non-negative and less than \<open>(height - 140) / cell_height\<close>; otherwise the click
  does not resolve: the index stays -1 and the code is not 0.
\<close>

theorem hit_test_round_trip:
  assumes lay: "1 \<le> cols xl" "0 < cell_height xl"
      "0 \<le> (cell_width xl - icon_size xl) sdiv 2"
      "(cell_width xl - icon_size xl) sdiv 2 < cell_width xl"
    and idx: "0 \<le> index" "index < num_entries xl"
  shows "\<exists>x y. xlunch_native_calculate_entry_position (Ptr xl) index (Ptr x0) (Ptr y0) =
                  Some (Ptr x, Ptr y) \<and>
           (if 0 \<le> index sdiv cols xl - scrolled_past xl \<and>
               index sdiv cols xl - scrolled_past xl < (height xl - 140) sdiv cell_height xl
            then xlunch_native_handle_events (Ptr xl) (Ptr s0) (ButtonPress 1 x y # rest) =
                   Some (0, Ptr xl, Ptr index, rest)
            else \<exists>code. code \<noteq> 0 \<and>
                   xlunch_native_handle_events (Ptr xl) (Ptr s0) (ButtonPress 1 x y # rest) =
                     Some (code, Ptr xl, Ptr (- 1), rest))"
proof -
  have d: "index sdiv cols xl = index div cols xl"
    using lay(1) idx(1) by (simp add: sdiv_nonneg)
  note pos = entry_position [OF lay(1) idx(1), of x0 y0]
  show ?thesis
  proof (cases "0 \<le> index div cols xl - scrolled_past xl \<and>
               index div cols xl - scrolled_past xl < (height xl - 140) sdiv cell_height xl")
    case True
    then have v: "0 \<le> index div cols xl - scrolled_past xl"
      "index div cols xl - scrolled_past xl < (height xl - 140) sdiv cell_height xl" by simp_all
    from left_click_at_entry [OF lay idx v] pos True show ?thesis
      by (simp add: d xlunch_native_handle_events_def)
  next
    case False
    from left_click_outside_view [OF lay idx(1) False] obtain code where
      "code \<noteq> 0" "left_click xl ((index mod cols xl) * cell_width xl + (cell_width xl - icon_size xl) sdiv 2)
            (140 + (index div cols xl - scrolled_past xl) * cell_height xl) = Some (code, Ptr xl, -1)"
      by blast
    with pos False show ?thesis
      by (simp add: d xlunch_native_handle_events_def)
  qed
qed

theorem hit_test_round_trip_witness:
  "xlunch_native_calculate_entry_position (Ptr (window_800x600\<lparr>num_entries := 50, scrolled_past := 1\<rparr>))
       8 (Ptr 0) (Ptr 0) = Some (Ptr 124, Ptr 140) \<and>
   xlunch_native_handle_events (Ptr (window_800x600\<lparr>num_entries := 50, scrolled_past := 1\<rparr>)) (Ptr 0)
       [ButtonPress 1 124 140] =
     Some (0, Ptr (window_800x600\<lparr>num_entries := 50, scrolled_past := 1\<rparr>), Ptr 8, [])"
proof -
  let ?xl = "window_800x600\<lparr>num_entries := 50, scrolled_past := 1\<rparr>"
  have pos: "xlunch_native_calculate_entry_position (Ptr ?xl) 8 (Ptr 0) (Ptr 0) = Some (Ptr 124, Ptr 140)"
    by (simp add: xlunch_native_calculate_entry_position_def window_800x600_def c_div_def c_mod_def
        signed_divide_int_def signed_modulo_int_def Let_def)
  have h: "1 \<le> cols ?xl" "0 < cell_height ?xl" "0 \<le> (cell_width ?xl - icon_size ?xl) sdiv 2"
    "(cell_width ?xl - icon_size ?xl) sdiv 2 < cell_width ?xl" "(0::int) \<le> 8" "8 < num_entries ?xl"
    by (simp_all add: window_800x600_def signed_divide_int_def)
  have v: "0 \<le> 8 sdiv cols ?xl - scrolled_past ?xl \<and>
      8 sdiv cols ?xl - scrolled_past ?xl < (height ?xl - 140) sdiv cell_height ?xl"
    by (simp add: window_800x600_def signed_divide_int_def)
  from hit_test_round_trip [OF h, of 0 0 0 "[]"] pos v show ?thesis
    by simp
qed

section \<open>Backdrop darkening\<close>

text \<open>
  The four bytes of a packed pixel read back, the range of a channel, and the loop as a
  map over the buffer.
\<close>

lemma low_byte: "(0xFF :: 32 word) = mask 8"
  by (simp add: mask_eq_exp_minus_1)

lemma alpha_byte: "(0xFF000000 :: 32 word) = push_bit 24 (mask 8)"
  by (simp add: mask_eq_exp_minus_1 push_bit_eq_mult)

lemma pack_red:
  fixes r g b :: int
  shows "drop_bit 16 (0xFF000000 OR word_of_int (push_bit 16 (take_bit 8 r)) OR
           word_of_int (push_bit 8 (take_bit 8 g)) OR word_of_int (take_bit 8 b) :: 32 word) AND 0xFF
         = word_of_int (take_bit 8 r)"
  unfolding low_byte alpha_byte
  by (rule bit_word_eqI) (auto simp: bit_simps)

lemma pack_green:
  fixes r g b :: int
  shows "drop_bit 8 (0xFF000000 OR word_of_int (push_bit 16 (take_bit 8 r)) OR
           word_of_int (push_bit 8 (take_bit 8 g)) OR word_of_int (take_bit 8 b) :: 32 word) AND 0xFF
         = word_of_int (take_bit 8 g)"
  unfolding low_byte alpha_byte
  by (rule bit_word_eqI) (auto simp: bit_simps)

lemma pack_blue:
  fixes r g b :: int
  shows "(0xFF000000 OR word_of_int (push_bit 16 (take_bit 8 r)) OR
           word_of_int (push_bit 8 (take_bit 8 g)) OR word_of_int (take_bit 8 b) :: 32 word) AND 0xFF
         = word_of_int (take_bit 8 b)"
  unfolding low_byte alpha_byte
  by (rule bit_word_eqI) (auto simp: bit_simps)

lemma pack_alpha:
  fixes r g b :: int
  shows "drop_bit 24 (0xFF000000 OR word_of_int (push_bit 16 (take_bit 8 r)) OR
           word_of_int (push_bit 8 (take_bit 8 g)) OR word_of_int (take_bit 8 b) :: 32 word)
         = 0xFF"
  unfolding low_byte alpha_byte
  by (rule bit_word_eqI) (auto simp: bit_simps)

lemma channel_range: "0 \<le> uint (w AND 0xFF :: 32 word) \<and> uint (w AND 0xFF :: 32 word) < 256"
proof -
  have "uint (w AND 0xFF) = take_bit 8 (uint w)"
    unfolding low_byte by (simp add: uint_and uint_mask_eq take_bit_eq_mask)
  moreover have "take_bit 8 (uint w) < 2 ^ 8" by (rule take_bit_int_less_exp)
  ultimately show ?thesis by simp
qed

lemma darkened_channel:
  assumes "0 \<le> c" "c < 256"
  shows "(c * (255 - 160)) sdiv 255 = take_bit 8 ((c * 95) div (255 :: int))"
proof -
  have "(c * (255 - 160)) sdiv 255 = (c * 95) div 255"
    using assms by (simp add: sdiv_nonneg)
  moreover have "0 \<le> c * 95" using assms by simp
  then have "0 \<le> (c * 95) div 255"
    by (simp only: pos_imp_zdiv_nonneg_iff [of 255, simplified])
  moreover have "(c * 95) div 255 < 2 ^ 8" using assms by simp
  ultimately show ?thesis
    by (simp only: take_bit_int_eq_self)
qed

lemma darkened_channel_of:
  "(uint (w AND 0xFF :: 32 word) * (255 - 160)) sdiv 255 =
     take_bit 8 ((uint (w AND 0xFF) * 95) div 255)"
  using channel_range [of w] by (intro darkened_channel) simp_all

lemma darken_pixel_packed:
  "darken_pixel p =
     0xFF000000 OR
     word_of_int (push_bit 16 (take_bit 8 ((uint (drop_bit 16 p AND 0xFF) * 95) div 255))) OR
     word_of_int (push_bit 8 (take_bit 8 ((uint (drop_bit 8 p AND 0xFF) * 95) div 255))) OR
     word_of_int (take_bit 8 ((uint (p AND 0xFF) * 95) div 255))"
  unfolding darken_pixel_def Let_def darkened_channel_of ..

lemma uint_channel:
  "uint (word_of_int (take_bit 8 k) :: 32 word) = take_bit 8 k"
  by (simp add: uint_word_of_int_eq min_def)

lemma floor_channel:
  "take_bit 8 ((uint (w AND 0xFF :: 32 word) * 95) div 255) = (uint (w AND 0xFF) * 95) div 255"
proof -
  have "0 \<le> uint (w AND 0xFF) * 95" by simp
  then have "0 \<le> (uint (w AND 0xFF) * 95) div 255"
    by (simp only: pos_imp_zdiv_nonneg_iff [of 255, simplified])
  moreover have "(uint (w AND 0xFF) * 95) div 255 < 2 ^ 8" using channel_range [of w] by simp
  ultimately show ?thesis by (simp only: take_bit_int_eq_self)
qed

lemma darken_loop_from:
  "i \<le> length direct \<Longrightarrow> n = int (length direct) \<Longrightarrow>
     darken_loop direct (int i) n = take i direct @ map darken_pixel (drop i direct)"
proof (induction "length direct - i" arbitrary: i direct)
  case 0
  then show ?case by (subst darken_loop.simps) simp
next
  case (Suc k)
  then have lt: "i < length direct" by simp
  let ?d = "direct[i := darken_pixel (direct ! i)]"
  have "darken_loop direct (int i) n = darken_loop ?d (int (Suc i)) n"
    using lt Suc.prems by (subst darken_loop.simps) (simp add: add.commute)
  also have "\<dots> = take (Suc i) ?d @ map darken_pixel (drop (Suc i) ?d)"
    using Suc.hyps(1) [of ?d "Suc i"] Suc.hyps(2) Suc.prems lt by simp
  also have "\<dots> = take i direct @ map darken_pixel (drop i direct)"
    using lt by (simp add: take_Suc_conv_app_nth Cons_nth_drop_Suc [symmetric])
  finally show ?case .
qed

text \<open>
  Initialisation with a successful root capture: the backdrop image receives the
  darkened buffer.
\<close>

lemma init_darkens_capture:
  assumes "malloc_result env = Ptr m" "display_opened env" "isize + 40 \<noteq> 0" "isize + 60 \<noteq> 0"
    and "background_created env" "root_capture env = Some direct" "int (length direct) = w * h"
  shows "\<exists>xl bg g'. xlunch_native_init env w h isize g = Some (Ptr xl, g') \<and>
      background_image xl = Ptr bg \<and>
      images g' bg = Some \<lparr>image_width = w, image_height = h,
        image_ops = [Set_has_alpha 0, Put_back_data (map darken_pixel direct)]\<rparr>"
proof -
  have loop: "darken_loop direct 0 (w * h) = map darken_pixel direct"
    using darken_loop_from [of 0 direct "w * h"] assms(7) by simp
  show ?thesis
  proof (cases "render_buffer_created env")
    case True
    with assms(1-6) show ?thesis
      by (simp add: xlunch_native_init_def c_div_def imlib_create_image_def
          imlib_context_set_image_def apply_to_current_image_def current_image_def Let_def loop)
  next
    case False
    with assms(1-6) show ?thesis
      by (simp add: xlunch_native_init_def c_div_def imlib_create_image_def
          imlib_context_set_image_def apply_to_current_image_def current_image_def Let_def loop)
  qed
qed

text \<open>
  C8. When \<^verbatim>\<open>xlunch_native_init\<close> creates the backdrop image and the root capture
  succeeds, the pixels it puts back into the backdrop image are the captured pixels,
  each darkened: the loop over the \<^verbatim>\<open>width * height\<close> pixels of the buffer is the map of
  the per-pixel function over it. That function depends on the pixel alone, channel by
  channel: the red, green and blue byte of the darkened pixel are \<open>floor (c * 95 / 255)\<close>
  of the byte \<open>c\<close> they replace, and the alpha byte is 255 (opaque). So 255, 128 and 0
  become 95, 47 and 0 (pixel \<^verbatim>\<open>0x00FF8000\<close> becomes \<^verbatim>\<open>0xFF5F2F00\<close>).
\<close>

theorem backdrop_darkening:
  assumes "malloc_result env = Ptr m" "display_opened env" "isize + 40 \<noteq> 0" "isize + 60 \<noteq> 0"
    and "background_created env" "root_capture env = Some direct" "int (length direct) = w * h"
  shows "(\<exists>xl bg g'. xlunch_native_init env w h isize g = Some (Ptr xl, g') \<and>
            background_image xl = Ptr bg \<and>
            images g' bg = Some \<lparr>image_width = w, image_height = h,
              image_ops = [Set_has_alpha 0, Put_back_data (map darken_pixel direct)]\<rparr>) \<and>
   darken_loop direct 0 (w * h) = map darken_pixel direct \<and>
   (\<forall>p. uint (drop_bit 16 (darken_pixel p) AND 0xFF) = (uint (drop_bit 16 p AND 0xFF) * 95) div 255 \<and>
        uint (drop_bit 8 (darken_pixel p) AND 0xFF) = (uint (drop_bit 8 p AND 0xFF) * 95) div 255 \<and>
        uint (darken_pixel p AND 0xFF) = (uint (p AND 0xFF) * 95) div 255 \<and>
        drop_bit 24 (darken_pixel p) = 0xFF) \<and>
   darken_pixel 0x00FF8000 = 0xFF5F2F00"
proof -
  have loop: "darken_loop direct 0 (w * h) = map darken_pixel direct"
    using darken_loop_from [of 0 direct "w * h"] assms(7) by simp
  have ex: "darken_pixel 0x00FF8000 = 0xFF5F2F00"
    by (simp add: darken_pixel_def Let_def signed_divide_int_def)
  have red: "uint (drop_bit 16 (darken_pixel p) AND 0xFF) = (uint (drop_bit 16 p AND 0xFF) * 95) div 255" for p
  proof -
    have "drop_bit 16 (darken_pixel p) AND 0xFF =
        word_of_int (take_bit 8 ((uint (drop_bit 16 p AND 0xFF) * 95) div 255))"
      unfolding darken_pixel_packed by (rule pack_red)
    then have "uint (drop_bit 16 (darken_pixel p) AND 0xFF) = take_bit 8 ((uint (drop_bit 16 p AND 0xFF) * 95) div 255)"
      by (simp only: uint_channel)
    then show ?thesis by (simp only: floor_channel)
  qed
  have green: "uint (drop_bit 8 (darken_pixel p) AND 0xFF) = (uint (drop_bit 8 p AND 0xFF) * 95) div 255" for p
  proof -
    have "drop_bit 8 (darken_pixel p) AND 0xFF =
        word_of_int (take_bit 8 ((uint (drop_bit 8 p AND 0xFF) * 95) div 255))"
      unfolding darken_pixel_packed by (rule pack_green)
    then have "uint (drop_bit 8 (darken_pixel p) AND 0xFF) = take_bit 8 ((uint (drop_bit 8 p AND 0xFF) * 95) div 255)"
      by (simp only: uint_channel)
    then show ?thesis by (simp only: floor_channel)
  qed
  have blue: "uint (darken_pixel p AND 0xFF) = (uint (p AND 0xFF) * 95) div 255" for p
  proof -
    have "darken_pixel p AND 0xFF =
        word_of_int (take_bit 8 ((uint (p AND 0xFF) * 95) div 255))"
      unfolding darken_pixel_packed by (rule pack_blue)
    then have "uint (darken_pixel p AND 0xFF) = take_bit 8 ((uint (p AND 0xFF) * 95) div 255)"
      by (simp only: uint_channel)
    then show ?thesis by (simp only: floor_channel)
  qed
  have alpha: "drop_bit 24 (darken_pixel p) = 0xFF" for p
    unfolding darken_pixel_packed by (rule pack_alpha)
  from init_darkens_capture [OF assms, of g] loop ex red green blue alpha
  show ?thesis by blast
qed

theorem backdrop_darkening_witness:
  "\<exists>xl bg g'. xlunch_native_init capture_env 2 1 64 no_display = Some (Ptr xl, g') \<and>
      background_image xl = Ptr bg \<and>
      images g' bg = Some \<lparr>image_width = 2, image_height = 1,
        image_ops = [Set_has_alpha 0, Put_back_data [0xFF5F2F00, 0xFF5F5F5F]]\<rparr>"
proof -
  have d: "map darken_pixel [0x00FF8000, 0x12FFFFFF] = [0xFF5F2F00, 0xFF5F5F5F]"
    by (simp add: darken_pixel_def Let_def signed_divide_int_def)
  have h: "malloc_result capture_env = Ptr zeroed" "display_opened capture_env"
    "(64::int) + 40 \<noteq> 0" "(64::int) + 60 \<noteq> 0" "background_created capture_env"
    "root_capture capture_env = Some [0x00FF8000, 0x12FFFFFF]"
    "int (length [0x00FF8000 :: DATA32, 0x12FFFFFF]) = 2 * 1"
    by (simp_all add: capture_env_def plain_env_def)
  from backdrop_darkening [OF h, of no_display] show ?thesis
    unfolding d by blast
qed

section \<open>Drawing: which target a draw call extends\<close>

lemma send_request_simps [simp]:
  "images (send_request d r g) = images g"
  "drawables (send_request d r g) d = drawables g d @ [r]"
  "gc_foreground (send_request d r g) = gc_foreground g"
  "context_image (send_request d r g) = context_image g"
  "context_drawable (send_request d r g) = context_drawable g"
  "next_image (send_request d r g) = next_image g"
  by (simp_all add: send_request_def)





text \<open>
  The branch of \<^verbatim>\<open>xlunch_native_draw_icon\<close> for a loaded image and a live render buffer:
  the blend lands on the icon image itself, which is the current image when
  \<^verbatim>\<open>imlib_blend_image_onto_image\<close> runs; no drawable changes; and the image freed at the
  end is the render buffer, the current image by then.
\<close>

lemma draw_icon_buffered:
  assumes "render_buffer xl = Ptr rb" "images g rb = Some im" "rb \<noteq> next_image g"
    "image_files g path = Some (iw, ih)"
  shows "\<exists>g'. xlunch_native_draw_icon (Ptr xl) x y w h (Ptr path) g = Some g' \<and>
      drawables g' = drawables g \<and>
      images g' rb = None \<and>
      images g' (next_image g) = Some \<lparr>image_width = iw, image_height = ih,
        image_ops = [Loaded_from path,
          if w - 16 > 16 \<and> h - 16 > 16
          then Blend_onto (next_image g) 1 0 0 iw ih (x + 8) (y + 8) (w - 16) (h - 16)
          else Blend_onto (next_image g) 1 0 0 iw ih x y w h]\<rparr>"
  using assms
  by (simp add: xlunch_native_draw_icon_def imlib_load_image_def imlib_context_set_image_def
      place_icon_def apply_to_current_image_def current_image_def
      imlib_free_image_def Let_def)




end
